theory Spec2Isabelle
  imports Complex_Main "HOL-Library.AList"
begin

section \<open>Python exceptions\<close>

text \<open>
  Every raise of the source is a value of \<open>py_exception\<close>; a function that can raise
  returns \<open>py_exception + 'a\<close>, with \<open>Inl\<close> the exception. An \<open>assert\<close> carries its
  message. Assertions are taken as enabled (the interpreter does not run with \<open>-O\<close>).
\<close>

datatype py_exception =
    AssertionError string
  | ValueError
  | TypeError
  | AttributeError
  | HandlerError string

section \<open>Value objects\<close>

subsection \<open>Decimal text of integers (\<open>str\<close>, \<open>format\<close>, \<open>int\<close>, \<open>str.split\<close>)\<close>

definition digit_char :: "nat \<Rightarrow> char" where
  "digit_char d = ''0123456789'' ! d"

definition digit_val :: "char \<Rightarrow> nat" where
  "digit_val c = of_char c - 48"

definition is_digit :: "char \<Rightarrow> bool" where
  "is_digit c = (48 \<le> (of_char c :: nat) \<and> (of_char c :: nat) \<le> 57)"

text \<open>\<open>str(n)\<close> for a natural number: its decimal digits, most significant first.\<close>

function str_nat :: "nat \<Rightarrow> string" where
  "str_nat n = (if n < 10 then [digit_char n] else str_nat (n div 10) @ [digit_char (n mod 10)])"
  by pat_completeness auto
termination
  by (relation "measure id") auto

declare str_nat.simps [simp del]

text \<open>\<open>str(i)\<close> for an integer, as the f-string field \<open>{self.year}\<close> renders it.\<close>

definition str_int :: "int \<Rightarrow> string" where
  "str_int i = (if i < 0 then CHR ''-'' # str_nat (nat (- i)) else str_nat (nat i))"

definition zfill :: "nat \<Rightarrow> string \<Rightarrow> string" where
  "zfill w s = replicate (w - length s) CHR ''0'' @ s"

text \<open>
  \<open>format(i, "02d")\<close>: zero padding to a total width of two, the sign counted in the
  width and written before the padding.
\<close>

definition format_02d :: "int \<Rightarrow> string" where
  "format_02d i =
     (if i < 0 then CHR ''-'' # zfill 1 (str_nat (nat (- i))) else zfill 2 (str_nat (nat i)))"

text \<open>\<open>s.split(c)\<close> for a separator of one character: the pieces between the separators.\<close>

fun split_on :: "char \<Rightarrow> string \<Rightarrow> string list" where
  "split_on c [] = [[]]"
| "split_on c (x # xs) =
     (if x = c then [] # split_on c xs
      else (case split_on c xs of
              [] \<Rightarrow> [[x]]
            | w # ws \<Rightarrow> (x # w) # ws))"

text \<open>
  \<open>int(s)\<close> on a string, base ten: surrounding ASCII whitespace is dropped, one sign is
  allowed, and the rest is digits, with single underscores allowed between digits.
  Anything else raises \<open>ValueError\<close>. Strings are byte strings here, so the non-ASCII
  digits and spaces that Python also accepts are not part of the model.
\<close>

definition is_space :: "char \<Rightarrow> bool" where
  "is_space c =
     (let n = (of_char c :: nat) in (9 \<le> n \<and> n \<le> 13) \<or> (28 \<le> n \<and> n \<le> 32))"

definition strip :: "string \<Rightarrow> string" where
  "strip s = rev (dropWhile is_space (rev (dropWhile is_space s)))"

fun double_underscore :: "string \<Rightarrow> bool" where
  "double_underscore (a # b # cs) =
     ((a = CHR ''_'' \<and> b = CHR ''_'') \<or> double_underscore (b # cs))"
| "double_underscore _ = False"

definition int_body_ok :: "string \<Rightarrow> bool" where
  "int_body_ok s =
     (s \<noteq> [] \<and> is_digit (hd s) \<and> is_digit (last s)
      \<and> list_all (\<lambda>c. is_digit c \<or> c = CHR ''_'') s \<and> \<not> double_underscore s)"

definition digits_value :: "string \<Rightarrow> nat" where
  "digits_value s = foldl (\<lambda>a c. 10 * a + digit_val c) 0 s"

definition py_int :: "string \<Rightarrow> py_exception + int" where
  "py_int s =
     (let t = strip s;
          neg = (t \<noteq> [] \<and> hd t = CHR ''-'');
          body = (if t \<noteq> [] \<and> (hd t = CHR ''-'' \<or> hd t = CHR ''+'') then tl t else t)
      in if int_body_ok body
         then Inr ((if neg then - 1 else 1) * int (digits_value (filter is_digit body)))
         else Inl ValueError)"

subsection \<open>Period (\<open>seedwork/domain/value_objects/period.py\<close>)\<close>

record period =
  year :: int
  month :: int

text \<open>\<open>Period(year=y, month=m)\<close>: the dataclass constructor followed by \<open>__post_init__\<close>.\<close>

definition Period :: "int \<Rightarrow> int \<Rightarrow> py_exception + period" where
  "Period y m =
     (if \<not> (1 \<le> m \<and> m \<le> 12) then Inl (AssertionError ''Month must be between 1 and 12'')
      else if \<not> y \<le> 2025 then Inl (AssertionError ''Year must be 2025 or earlier'')
      else Inr \<lparr>year = y, month = m\<rparr>)"

text \<open>\<open>Period.__lt__\<close> and \<open>Period.__gt__\<close>.\<close>

definition Period_lt :: "period \<Rightarrow> period \<Rightarrow> bool" where
  "Period_lt self other = (year self < year other \<or> month self < month other)"

definition Period_gt :: "period \<Rightarrow> period \<Rightarrow> bool" where
  "Period_gt self other = (year self > year other \<or> month self > month other)"

text \<open>
  The order the specification describes (year first, ties broken by month), written from
  its words to be compared with \<open>Period_lt\<close>.
\<close>

definition spec_precedes :: "period \<Rightarrow> period \<Rightarrow> bool" where
  "spec_precedes p q = (year p < year q \<or> (year p = year q \<and> month p < month q))"

definition representation :: "period \<Rightarrow> string" where
  "representation self = format_02d (month self) @ ''-'' @ str_int (year self)"

definition inside_range_period :: "period \<Rightarrow> period \<Rightarrow> period \<Rightarrow> bool" where
  "inside_range_period self start end_p = (Period_lt start self \<and> Period_lt self end_p)"

text \<open>
  \<open>Period.from_str_format\<close>: the tuple assignment raises \<open>ValueError\<close> unless the split
  gives exactly two pieces; the year is converted first, then the month.
\<close>

definition from_str_format :: "string \<Rightarrow> py_exception + period" where
  "from_str_format s =
     (case split_on CHR ''-'' s of
        [month_str, year_str] \<Rightarrow>
          (case py_int year_str of
             Inl e \<Rightarrow> Inl e
           | Inr y \<Rightarrow>
               (case py_int month_str of
                  Inl e \<Rightarrow> Inl e
                | Inr m \<Rightarrow> Period y m))
      | _ \<Rightarrow> Inl ValueError)"

subsection \<open>Money (\<open>seedwork/domain/value_objects/money.py\<close>)\<close>

text \<open>
  Amounts are Python numbers (\<open>float\<close> by annotation, \<open>int\<close> in the examples). They are
  modelled as exact reals: comparison with zero is exact on floats too, and the sums,
  products and quotients evaluated below are of small integers, where float arithmetic
  is exact. Rounding of other float results is not modelled.
\<close>

datatype currency = USD | ARS

record money =
  amount :: real
  currency :: currency

text \<open>
  \<open>Fee\<close> is declared in \<open>value_objects/fee.py\<close>, which is not among the sources;
  \<open>calculate_fee\<close> reads only its attribute \<open>value\<close>.
\<close>

record fee =
  fee_value :: real

definition Fee :: "real \<Rightarrow> fee" where
  "Fee v = \<lparr>fee_value = v\<rparr>"

text \<open>\<open>Money(amount=a, currency=c)\<close> with \<open>__post_init__\<close>; the default currency is \<open>ARS\<close>.\<close>

definition Money :: "real \<Rightarrow> currency \<Rightarrow> py_exception + money" where
  "Money a c =
     (if a \<ge> 0 then Inr \<lparr>amount = a, currency = c\<rparr>
      else Inl (AssertionError ''Amount must be greather than 0''))"

definition money_add :: "money \<Rightarrow> money \<Rightarrow> py_exception + money" where
  "money_add self other = Money (amount self + amount other) (currency self)"

definition money_sub :: "money \<Rightarrow> money \<Rightarrow> py_exception + money" where
  "money_sub self other = Money (amount self - amount other) (currency self)"

definition calculate_fee :: "money \<Rightarrow> fee \<Rightarrow> py_exception + money" where
  "calculate_fee self f = Money ((amount self * fee_value f) / 100) (currency self)"

section \<open>The dependency provider (\<open>config/container.py\<close>)\<close>

subsection \<open>Classes, identifiers and providers\<close>

text \<open>
  A class is known by the name \<open>str\<close> prints for it and by the names of its proper
  ancestors; \<open>issubclass(c, d)\<close> holds when \<open>d\<close> is \<open>c\<close> or one of its ancestors.
\<close>

datatype pyclass = PyClass (class_name: string) (ancestors: "string list")

definition issubclass :: "pyclass \<Rightarrow> pyclass \<Rightarrow> bool" where
  "issubclass c d = (class_name d = class_name c \<or> class_name d \<in> set (ancestors c))"

definition str_class :: "pyclass \<Rightarrow> string" where
  "str_class c = ''<class '' @ [CHR 0x27] @ class_name c @ [CHR 0x27] @ ''>''"

text \<open>A dependency is identified by a string or by a type (\<open>identifier: str | type\<close>).\<close>

datatype dependency_id = Name string | Type pyclass

definition str_identifier :: "dependency_id \<Rightarrow> string" where
  "str_identifier i = (case i of Name s \<Rightarrow> s | Type c \<Rightarrow> str_class c)"

text \<open>
  The providers of \<open>dependency_injector\<close> that the source names. \<open>Factory\<close> and
  \<open>Singleton\<close> carry the class they build (\<open>provider.cls\<close>), \<open>Dependency\<close> the class
  it declares (\<open>provider.instance_of\<close>), \<open>Object\<close> none. Each carries the instance a call
  \<open>provider()\<close> returns; that the library's call may itself fail (a dependency never
  supplied, a constructor that raises) is outside the model.
\<close>

datatype 'v provider =
    Factory pyclass 'v
  | Singleton pyclass 'v
  | Dependency pyclass 'v
  | Object 'v

fun call_provider :: "'v provider \<Rightarrow> 'v" where
  "call_provider (Factory c v) = v"
| "call_provider (Singleton c v) = v"
| "call_provider (Dependency c v) = v"
| "call_provider (Object v) = v"

subsection \<open>Containers in the heap\<close>

text \<open>
  A \<open>DynamicContainer\<close> is an object: its attributes that hold providers (the instance
  \<open>__dict__\<close>, in insertion order) and a reference to its \<open>providers\<close> dictionary.
  Objects live in a heap and are named by their addresses, so that two containers can
  share one dictionary. Attribute names that the container class uses itself
  (\<open>providers\<close>, its methods) are not provider names in this model.
\<close>

record 'v dynamic_container =
  attrs :: "(string \<times> 'v provider) list"
  providers :: nat

record 'v heap =
  containers :: "nat \<Rightarrow> 'v dynamic_container"
  dicts :: "nat \<Rightarrow> (string \<times> 'v provider) list"
  fresh :: nat

text \<open>
  \<open>DynamicContainer.__setattr__\<close> with a provider as value: the library enters the
  provider in the \<open>providers\<close> dictionary, then sets the attribute of the object.
\<close>

definition container_setattr ::
  "'v heap \<Rightarrow> nat \<Rightarrow> string \<Rightarrow> 'v provider \<Rightarrow> 'v heap" where
  "container_setattr h a name pr =
     (let c = containers h a in
      h\<lparr>dicts := (dicts h)(providers c := AList.update name pr (dicts h (providers c))),
        containers := (containers h)(a := c\<lparr>attrs := AList.update name pr (attrs c)\<rparr>)\<rparr>)"

text \<open>
  The builtin \<open>setattr(obj, name, value)\<close>: a name that is not a string raises
  \<open>TypeError\<close> before the object is touched.
\<close>

definition py_setattr ::
  "'v heap \<Rightarrow> nat \<Rightarrow> dependency_id \<Rightarrow> 'v provider \<Rightarrow> py_exception + 'v heap" where
  "py_setattr h a i pr =
     (case i of
        Name n \<Rightarrow> Inr (container_setattr h a n pr)
      | Type c \<Rightarrow> Inl TypeError)"

text \<open>
  \<open>inspect.getmembers(container, predicate)\<close>, restricted to the attributes that hold
  providers (the predicate of the source is false on everything else). Python returns
  the members sorted by name; the source reads only the length of the list and, when
  the length is one, its only element, so the order is left as stored.
\<close>

definition getmembers ::
  "'v heap \<Rightarrow> nat \<Rightarrow> ('v provider \<Rightarrow> bool) \<Rightarrow> (string \<times> 'v provider) list" where
  "getmembers h a predicate = filter (\<lambda>(name, pr). predicate pr) (attrs (containers h a))"

subsection \<open>\<open>resolve_provider_by_type\<close> and \<open>ContainerProvider\<close>\<close>

definition inspect_provider :: "pyclass \<Rightarrow> 'v provider \<Rightarrow> bool" where
  "inspect_provider cls pr =
     (case pr of
        Factory c v \<Rightarrow> issubclass c cls
      | Singleton c v \<Rightarrow> issubclass c cls
      | Dependency c v \<Rightarrow> issubclass c cls
      | Object v \<Rightarrow> False)"

text \<open>
  With more than one match the source builds
  \<open>ValueError(f"... Found {len(providers)} matching resources.")\<close>. In that function
  \<open>providers\<close> is the imported module \<open>dependency_injector.providers\<close>, and \<open>len\<close> of a
  module raises \<open>TypeError\<close> while the message is formatted, so the \<open>ValueError\<close> is
  never raised.
\<close>

definition resolve_provider_by_type ::
  "'v heap \<Rightarrow> nat \<Rightarrow> pyclass \<Rightarrow> py_exception + 'v provider option" where
  "resolve_provider_by_type h a cls =
     (let matching_providers = getmembers h a (inspect_provider cls) in
      case matching_providers of
        [] \<Rightarrow> Inr None
      | m # ms \<Rightarrow>
          if length matching_providers > 1 then Inl TypeError
          else Inr (Some (snd m)))"

record container_provider =
  container :: nat
  counter :: nat

definition ContainerProvider :: "nat \<Rightarrow> container_provider" where
  "ContainerProvider c = \<lparr>container = c, counter = 0\<rparr>"

text \<open>
  \<open>has_dependency\<close>: a type is looked up among the declared providers (an ambiguous
  type raises, as above); a string is looked up in the \<open>providers\<close> dictionary.
\<close>

definition has_dependency ::
  "'v heap \<Rightarrow> container_provider \<Rightarrow> dependency_id \<Rightarrow> py_exception + bool" where
  "has_dependency h self i =
     (case i of
        Type cls \<Rightarrow>
          (case resolve_provider_by_type h (container self) cls of
             Inl e \<Rightarrow> Inl e
           | Inr (Some pr) \<Rightarrow> Inr True
           | Inr None \<Rightarrow> Inr False)
      | Name n \<Rightarrow>
          Inr (n \<in> fst ` set (dicts h (providers (containers h (container self))))))"

text \<open>
  \<open>register_dependency\<close>: the first \<open>setattr\<close> fails with \<open>TypeError\<close> exactly when the
  identifier is not a string; the handler then stores the provider under
  \<open>f"{str(identifier)}-{self.counter}"\<close> and increments the counter.
\<close>

definition register_dependency ::
  "'v heap \<Rightarrow> container_provider \<Rightarrow> dependency_id \<Rightarrow> 'v
     \<Rightarrow> py_exception + ('v heap \<times> container_provider)" where
  "register_dependency h self i dependency_instance =
     (let pr = Object dependency_instance in
      case py_setattr h (container self) i pr of
        Inr h' \<Rightarrow> Inr (h', self)
      | Inl TypeError \<Rightarrow>
          (case py_setattr h (container self)
                  (Name (str_identifier i @ ''-'' @ str_nat (counter self))) pr of
             Inr h' \<Rightarrow> Inr (h', self\<lparr>counter := counter self + 1\<rparr>)
           | Inl e \<Rightarrow> Inl e)
      | Inl e \<Rightarrow> Inl e)"

text \<open>
  \<open>get_dependency\<close>: the \<open>try\<close> re-raises whatever is raised. A type with no match makes
  \<open>resolve_provider_by_type\<close> return \<open>None\<close>, and the call \<open>provider()\<close> on \<open>None\<close>
  raises \<open>TypeError\<close>; a string that names no attribute makes \<open>getattr\<close> raise
  \<open>AttributeError\<close>.
\<close>

definition get_dependency ::
  "'v heap \<Rightarrow> container_provider \<Rightarrow> dependency_id \<Rightarrow> py_exception + 'v" where
  "get_dependency h self i =
     (case i of
        Type cls \<Rightarrow>
          (case resolve_provider_by_type h (container self) cls of
             Inl e \<Rightarrow> Inl e
           | Inr None \<Rightarrow> Inl TypeError
           | Inr (Some pr) \<Rightarrow> Inr (call_provider pr))
      | Name n \<Rightarrow>
          (case map_of (attrs (containers h (container self))) n of
             None \<Rightarrow> Inl AttributeError
           | Some pr \<Rightarrow> Inr (call_provider pr)))"

text \<open>
  \<open>DependencyProvider.update(*args, **kwargs)\<close> of the framework registers each
  binding in turn; the bindings are given here as a list of identifier and instance.
\<close>

fun update ::
  "'v heap \<Rightarrow> container_provider \<Rightarrow> (dependency_id \<times> 'v) list
     \<Rightarrow> py_exception + ('v heap \<times> container_provider)" where
  "update h self [] = Inr (h, self)"
| "update h self ((i, x) # rest) =
     (case register_dependency h self i x of
        Inl e \<Rightarrow> Inl e
      | Inr (h', self') \<Rightarrow> update h' self' rest)"

text \<open>
  \<open>copy.copy(container)\<close>: a new object with the same attributes, each referring to the
  same value as before; the \<open>providers\<close> dictionary is therefore shared with the
  original.
\<close>

definition copy_copy :: "'v heap \<Rightarrow> nat \<Rightarrow> 'v heap \<times> nat" where
  "copy_copy h a =
     (h\<lparr>containers := (containers h)(fresh h := containers h a), fresh := Suc (fresh h)\<rparr>,
      fresh h)"

text \<open>\<open>ContainerProvider.copy\<close>: the new provider starts with its counter at zero.\<close>

definition ContainerProvider_copy ::
  "'v heap \<Rightarrow> container_provider \<Rightarrow> (dependency_id \<times> 'v) list
     \<Rightarrow> py_exception + ('v heap \<times> container_provider)" where
  "ContainerProvider_copy h self extra =
     (case copy_copy h (container self) of
        (h1, b) \<Rightarrow> update h1 (ContainerProvider b) extra)"

text \<open>A new \<open>DynamicContainer\<close> with the given provider attributes and its own dictionary.\<close>

definition new_container :: "'v heap \<Rightarrow> (string \<times> 'v provider) list \<Rightarrow> 'v heap \<times> nat" where
  "new_container h ps =
     (h\<lparr>containers := (containers h)(fresh h := \<lparr>attrs = ps, providers = fresh h\<rparr>),
        dicts := (dicts h)(fresh h := ps),
        fresh := Suc (fresh h)\<rparr>,
      fresh h)"

text \<open>The heap before any container is created.\<close>

definition empty_heap :: "'v heap" where
  "empty_heap =
     \<lparr>containers = (\<lambda>a. \<lparr>attrs = [], providers = a\<rparr>), dicts = (\<lambda>a. []), fresh = 0\<rparr>"

section \<open>The unit of work (\<open>create_application\<close> in \<open>config/container.py\<close>)\<close>

subsection \<open>Objects of a transaction and the state of the process\<close>

text \<open>\<open>uuid.UUID(int=n)\<close>.\<close>

datatype uuid = UUID (uuid_int: nat)

datatype domain_event = DomainEvent string

text \<open>
  The instances that are bound as dependencies or passed to handlers. Sessions and
  repositories are mutable objects and are named by their addresses.
\<close>

datatype pyobj =
    PySession nat
  | PyUUID uuid
  | PyLogger
  | PyOutbox
  | PyRepository nat
  | PyPublish
  | PyMessage string
  | PyValue string

datatype session_call = Commit | Rollback | Close

datatype log_level = DEBUG | WARNING

text \<open>
  The message of a log call. An f-string is kept as its template with its arguments,
  so that \<open>str\<close> of arbitrary objects need not be modelled.
\<close>

datatype log_message =
    Text string
  | RollbackDueTo py_exception
  | CollectingEventFrom pyobj
  | Publishing domain_event

record log_record =
  level :: log_level
  correlation_id :: uuid
  message :: log_message

text \<open>
  The state the hooks and the middleware act on: the heap of containers; for each
  session the calls made on it, in order; for each repository the session it is bound
  to and its buffer of domain events; the calls of \<open>collect_events\<close> and of
  \<open>ctx.publish_async\<close>, in order; the logger's correlation id and the lines logged; and
  the values that \<open>uuid.uuid4()\<close> returns, in the order of the calls.

  The session is the recorder of the calls made on it: that \<open>commit\<close>, \<open>rollback\<close> or
  \<open>close\<close> of the database library may raise is outside the model, and so is what the
  framework's \<open>publish_async\<close> does with an event.
\<close>

record world =
  di :: "pyobj heap"
  sessions :: "nat \<Rightarrow> session_call list"
  fresh_session :: nat
  repository_session :: "nat \<Rightarrow> nat"
  buffers :: "nat \<Rightarrow> domain_event list"
  fresh_repository :: nat
  collected :: "nat list"
  published_async :: "domain_event list"
  logger_correlation_id :: uuid
  log_lines :: "log_record list"
  entropy :: "nat \<Rightarrow> uuid"
  drawn :: nat

definition initial_world :: "(nat \<Rightarrow> uuid) \<Rightarrow> world" where
  "initial_world random =
     \<lparr>di = empty_heap, sessions = (\<lambda>s. []), fresh_session = 0,
      repository_session = (\<lambda>r. 0), buffers = (\<lambda>r. []), fresh_repository = 0,
      collected = [], published_async = [],
      logger_correlation_id = UUID 0, log_lines = [],
      entropy = random, drawn = 0\<rparr>"

definition uuid4 :: "world \<Rightarrow> uuid \<times> world" where
  "uuid4 w = (entropy w (drawn w), w\<lparr>drawn := Suc (drawn w)\<rparr>)"

text \<open>\<open>Session(engine)\<close>: a new session, on which nothing has been called.\<close>

definition Session_new :: "world \<Rightarrow> nat \<times> world" where
  "Session_new w =
     (fresh_session w,
      w\<lparr>sessions := (sessions w)(fresh_session w := []),
        fresh_session := Suc (fresh_session w)\<rparr>)"

definition session_do :: "nat \<Rightarrow> session_call \<Rightarrow> world \<Rightarrow> world" where
  "session_do s c w = w\<lparr>sessions := (sessions w)(s := sessions w s @ [c])\<rparr>"

text \<open>
  Modelled from the spec: the logger of \<open>seedwork/infrastructure/logging.py\<close>, which is
  not among the sources. It holds the correlation id of the active unit of work, and
  every line it logs carries the id it holds at that moment.
\<close>

definition logger_set_correlation_id :: "uuid \<Rightarrow> world \<Rightarrow> world" where
  "logger_set_correlation_id u w = w\<lparr>logger_correlation_id := u\<rparr>"

definition logger_log :: "log_level \<Rightarrow> log_message \<Rightarrow> world \<Rightarrow> world" where
  "logger_log l m w =
     w\<lparr>log_lines := log_lines w @ [\<lparr>level = l, correlation_id = logger_correlation_id w, message = m\<rparr>]\<rparr>"

text \<open>
  Modelled from the spec: the concrete repositories, which are not among the sources
  (the source has the abstract \<open>GenericRepository\<close> only). A repository is bound to one
  session and buffers the domain events of its entities; \<open>collect_events\<close> returns the
  buffered events and leaves the buffer empty.
\<close>

definition Repository_new :: "nat \<Rightarrow> world \<Rightarrow> nat \<times> world" where
  "Repository_new db_session w =
     (fresh_repository w,
      w\<lparr>repository_session := (repository_session w)(fresh_repository w := db_session),
        buffers := (buffers w)(fresh_repository w := []),
        fresh_repository := Suc (fresh_repository w)\<rparr>)"


subsection \<open>The transaction container and the hooks\<close>

text \<open>
  \<open>TransactionContainer(db_session=..., correlation_id=..., logger=...,
  strategy_repository=...)\<close>: a container with the declared providers, the keyword
  arguments supplying the instances of the providers they name. A \<open>Singleton\<close> builds
  its instance at the first call and returns the same one afterwards; the two
  repositories that are not passed in are created here, bound to the session. The
  classes are declared outside the sources, so the ancestors of each class are the
  parameter \<open>bases\<close>.
\<close>

definition TransactionContainer ::
  "(string \<Rightarrow> string list) \<Rightarrow> nat \<Rightarrow> uuid \<Rightarrow> nat \<Rightarrow> world \<Rightarrow> nat \<times> world" where
  "TransactionContainer bases db_session cid strategy_repository w =
     (let cls = (\<lambda>n. PyClass n (bases n));
          (partner_repository, w1) = Repository_new db_session w;
          (operation_repository, w2) = Repository_new db_session w1;
          (h, c) = new_container (di w2)
            [(''correlation_id'', Dependency (cls ''uuid.UUID'') (PyUUID cid)),
             (''db_session'',
                Dependency (cls ''sqlalchemy.orm.session.Session'') (PySession db_session)),
             (''logger'', Dependency (cls ''src.seedwork.infrastructure.logging.Logger'') PyLogger),
             (''outbox'',
                Singleton (cls ''src.seedwork.application.inbox_outbox.InMemoryOutbox'') PyOutbox),
             (''strategy_repository'',
                Singleton
                  (cls (''src.modules.strategy.infrastructure.strategy_postgres_repository''
                        @ ''.StrategyPostgresJsonManagementRepository''))
                  (PyRepository strategy_repository)),
             (''partner_repository'',
                Singleton
                  (cls (''src.modules.partner.infrastructure.partner_postgres_repository''
                        @ ''.PartnerPostgresJsonManagementRepository''))
                  (PyRepository partner_repository)),
             (''operation_repository'',
                Singleton
                  (cls (''src.modules.operation.infrastructure.operation_postgres_repository''
                        @ ''.OperationPostgresJsonManagementRepository''))
                  (PyRepository operation_repository))]
      in (c, w2\<lparr>di := h\<rparr>))"

text \<open>The framework's \<open>TransactionContext\<close>, as far as the hooks use it.\<close>

record transaction_context =
  dependency_provider :: container_provider

definition TransactionContext :: "container_provider \<Rightarrow> transaction_context" where
  "TransactionContext dp = \<lparr>dependency_provider = dp\<rparr>"

text \<open>\<open>ctx[name]\<close> is \<open>get_dependency(name)\<close> of the context's provider.\<close>

definition ctx_getitem :: "world \<Rightarrow> transaction_context \<Rightarrow> string \<Rightarrow> py_exception + pyobj" where
  "ctx_getitem w ctx name = get_dependency (di w) (dependency_provider ctx) (Name name)"

text \<open>
  \<open>on_create_transaction_context\<close>: a new session, the two identifiers, the strategy
  repository on the session, and a \<open>ContainerProvider\<close> over a new
  \<open>TransactionContainer\<close>. The identifier bound as \<open>correlation_id\<close> is the result of
  one call of \<open>uuid.uuid4()\<close>; the logger is given the result of another call. The
  database engine the session is opened on plays no part in what follows and is left
  out.
\<close>

definition on_create_transaction_context ::
  "(string \<Rightarrow> string list) \<Rightarrow> world \<Rightarrow> transaction_context \<times> world" where
  "on_create_transaction_context bases w =
     (let (session, w1) = Session_new w;
          (cid, w2) = uuid4 w1;
          (u, w3) = uuid4 w2;
          w4 = logger_set_correlation_id u w3;
          (strategy_repository, w5) = Repository_new session w4;
          (c, w6) = TransactionContainer bases session cid strategy_repository w5
      in (TransactionContext (ContainerProvider c), w6))"

text \<open>
  \<open>on_enter_transaction_context\<close>: \<open>ctx.set_dependencies(publish=ctx.publish)\<close>
  registers the bound method under the name \<open>publish\<close>, then a line is logged.
\<close>

definition on_enter_transaction_context ::
  "world \<Rightarrow> transaction_context \<Rightarrow> (py_exception + transaction_context) \<times> world" where
  "on_enter_transaction_context w ctx =
     (case update (di w) (dependency_provider ctx) [(Name ''publish'', PyPublish)] of
        Inl e \<Rightarrow> (Inl e, w)
      | Inr (h, dp) \<Rightarrow>
          (Inr (ctx\<lparr>dependency_provider := dp\<rparr>),
           logger_log DEBUG (Text ''Entering transaction'') (w\<lparr>di := h\<rparr>)))"

text \<open>
  \<open>on_exit_transaction_context\<close>. The argument \<open>exception\<close> is \<open>None\<close> when the handler
  returned and the exception when it raised (an exception object is true in the test
  \<open>if exception:\<close>). The hook has no \<open>raise\<close>: the one in the source is commented out.
  A dependency \<open>db_session\<close> that is not a session has no \<open>rollback\<close> or \<open>commit\<close>.
\<close>

definition on_exit_transaction_context ::
  "world \<Rightarrow> transaction_context \<Rightarrow> py_exception option \<Rightarrow> (py_exception + unit) \<times> world" where
  "on_exit_transaction_context w ctx exception =
     (case ctx_getitem w ctx ''db_session'' of
        Inl e \<Rightarrow> (Inl e, w)
      | Inr (PySession session) \<Rightarrow>
          (let w1 = (case exception of
                       Some e \<Rightarrow>
                         logger_log WARNING (RollbackDueTo e) (session_do session Rollback w)
                     | None \<Rightarrow>
                         logger_log DEBUG (Text ''committed'') (session_do session Commit w));
               w2 = session_do session Close w1;
               w3 = logger_log DEBUG (Text ''transaction ended'') w2;
               w4 = logger_set_correlation_id (UUID 0) w3
           in (Inr (), w4))
      | Inr other \<Rightarrow> (Inl AttributeError, w))"

subsection \<open>The event collector middleware\<close>






section \<open>Properties of the value objects\<close>

subsection \<open>Decimal text\<close>

lemma digit_cases: "d < 10 \<Longrightarrow> d \<in> {0, 1, 2, 3, 4, 5, 6, 7, 8, 9 :: nat}"
  by auto

lemma digit_val_digit_char: "d < 10 \<Longrightarrow> digit_val (digit_char d) = d"
  using digit_cases [of d] by (auto simp: digit_val_def digit_char_def)

lemma is_digit_digit_char: "d < 10 \<Longrightarrow> is_digit (digit_char d)"
  using digit_cases [of d] by (auto simp: is_digit_def digit_char_def)

lemma is_digit_plain:
  assumes "is_digit c"
  shows "c \<noteq> CHR ''-''" and "c \<noteq> CHR ''+''" and "c \<noteq> CHR ''_''" and "\<not> is_space c"
  using assms by (auto simp: is_digit_def is_space_def)

lemma str_nat_digits: "list_all is_digit (str_nat n)"
proof (induction n rule: str_nat.induct)
  case (1 n)
  show ?case
  proof (cases "n < 10")
    case True
    then show ?thesis by (subst str_nat.simps) (simp add: is_digit_digit_char)
  next
    case False
    then have "list_all is_digit (str_nat (n div 10))" using 1 by simp
    moreover have "is_digit (digit_char (n mod 10))" by (simp add: is_digit_digit_char)
    ultimately show ?thesis using False by (subst str_nat.simps) simp
  qed
qed

lemma str_nat_nonempty: "str_nat n \<noteq> []"
  by (subst str_nat.simps) simp

lemma digits_value_snoc: "digits_value (xs @ [c]) = 10 * digits_value xs + digit_val c"
  by (simp add: digits_value_def)

lemma digits_value_str_nat: "digits_value (str_nat n) = n"
proof (induction n rule: str_nat.induct)
  case (1 n)
  show ?case
  proof (cases "n < 10")
    case True
    then show ?thesis by (subst str_nat.simps) (simp add: digits_value_def digit_val_digit_char)
  next
    case False
    then have "digits_value (str_nat (n div 10)) = n div 10" using 1 by simp
    then show ?thesis using False
      by (subst str_nat.simps) (simp add: digits_value_snoc digit_val_digit_char)
  qed
qed

lemma digits_value_zeros: "digits_value (replicate k CHR ''0'' @ s) = digits_value s"
proof -
  have "foldl (\<lambda>a c. 10 * a + digit_val c) 0 (replicate k CHR ''0'') = 0"
    by (induction k) (simp_all add: digit_val_def)
  then show ?thesis by (simp add: digits_value_def)
qed

lemma no_double_underscore: "list_all is_digit s \<Longrightarrow> \<not> double_underscore s"
  by (induction s rule: double_underscore.induct) (auto dest: is_digit_plain(3))

lemma strip_digits:
  assumes "list_all is_digit s"
  shows "strip s = s"
proof -
  have a: "dropWhile is_space s = s"
    using assms by (cases s) (auto dest: is_digit_plain(4))
  have "list_all is_digit (rev s)" using assms by (simp add: list_all_iff)
  then have "dropWhile is_space (rev s) = rev s"
    by (cases "rev s") (auto dest: is_digit_plain(4))
  then show ?thesis by (simp add: strip_def a)
qed

text \<open>On a non-empty string of digits, \<open>int\<close> returns the number the digits denote.\<close>

lemma py_int_digits:
  assumes "list_all is_digit s" and "s \<noteq> []"
  shows "py_int s = Inr (int (digits_value s))"
proof -
  have hd: "is_digit (hd s)" and lst: "is_digit (last s)"
    using assms by (auto simp: list_all_iff)
  have sign: "hd s \<noteq> CHR ''-''" "hd s \<noteq> CHR ''+''"
    using hd by (auto dest: is_digit_plain)
  have ok: "int_body_ok s"
    using assms hd lst no_double_underscore [OF assms(1)]
    by (auto simp: int_body_ok_def list_all_iff)
  have flt: "filter is_digit s = s"
    using assms(1) by (simp add: list_all_iff)
  show ?thesis
    using sign ok flt by (simp add: py_int_def strip_digits [OF assms(1)] Let_def)
qed

lemma split_on_none: "c \<notin> set s \<Longrightarrow> split_on c s = [s]"
  by (induction s) auto

lemma split_on_once:
  "c \<notin> set a \<Longrightarrow> c \<notin> set b \<Longrightarrow> split_on c (a @ c # b) = [a, b]"
  by (induction a) (auto simp: split_on_none)

lemma digits_no_dash: "list_all is_digit s \<Longrightarrow> CHR ''-'' \<notin> set s"
  by (auto simp: list_all_iff dest: is_digit_plain(1))

lemma zfill_digits: "list_all is_digit s \<Longrightarrow> list_all is_digit (zfill w s)"
  by (auto simp: zfill_def list_all_iff is_digit_def)

subsection \<open>Period\<close>

lemma from_str_format_representation:
  assumes "Period y m = Inr p" and "0 \<le> year p"
  shows "from_str_format (representation p) = Inr p"
proof -
  have p: "p = \<lparr>year = y, month = m\<rparr>" and m: "1 \<le> m" "m \<le> 12"
    using assms(1) by (auto simp: Period_def split: if_splits)
  have y0: "0 \<le> y" using assms(2) p by simp
  let ?ms = "zfill 2 (str_nat (nat m))" and ?ys = "str_nat (nat y)"
  have rep: "representation p = ?ms @ CHR ''-'' # ?ys"
    using m y0 by (simp add: representation_def format_02d_def str_int_def p)
  have dm: "list_all is_digit ?ms" by (simp add: zfill_digits str_nat_digits)
  have dy: "list_all is_digit ?ys" by (simp add: str_nat_digits)
  have sp: "split_on CHR ''-'' (representation p) = [?ms, ?ys]"
    unfolding rep by (rule split_on_once) (simp_all add: digits_no_dash dm dy)
  have vy: "py_int ?ys = Inr y"
    using y0 by (simp add: py_int_digits [OF dy] str_nat_nonempty digits_value_str_nat)
  have "?ms \<noteq> []" by (simp add: zfill_def str_nat_nonempty)
  then have vm: "py_int ?ms = Inr m"
    using m by (simp add: py_int_digits [OF dm]) (simp add: zfill_def digits_value_zeros digits_value_str_nat)
  show ?thesis
    by (simp add: from_str_format_def sp vy vm assms(1))
qed

lemma from_str_format_example: "from_str_format ''03-2024'' = Period 2024 3"
  by (simp add: from_str_format_def py_int_def strip_def is_space_def int_body_ok_def is_digit_def
      digits_value_def digit_val_def Let_def)

text \<open>
  C6. The claim is that \<open>p < q\<close> holds exactly when \<open>(p.year, p.month)\<close> precedes
  \<open>(q.year, q.month)\<close> lexicographically, and that \<open>p < q\<close> and \<open>p > q\<close> never hold
  together. \<open>Period.__lt__\<close> is \<open>self.year < period.year or self.month < period.month\<close>:
  the month is compared whatever the years are. For the valid periods January 2024 and
  December 2023, \<open>Period_lt\<close> and \<open>Period_gt\<close> both hold, and January 2024 does not
  precede December 2023 in the order the specification describes.
\<close>

theorem Period_lt_ignores_year_tie:
  "Period 2024 1 = Inr \<lparr>year = 2024, month = 1\<rparr>
   \<and> Period 2023 12 = Inr \<lparr>year = 2023, month = 12\<rparr>
   \<and> Period_lt \<lparr>year = 2024, month = 1\<rparr> \<lparr>year = 2023, month = 12\<rparr>
   \<and> Period_gt \<lparr>year = 2024, month = 1\<rparr> \<lparr>year = 2023, month = 12\<rparr>
   \<and> \<not> spec_precedes \<lparr>year = 2024, month = 1\<rparr> \<lparr>year = 2023, month = 12\<rparr>"
  by (simp add: Period_def Period_lt_def Period_gt_def spec_precedes_def)

text \<open>
  C7, as claimed, fails on a period with a negative year. \<open>Period(year=-1, month=3)\<close>
  passes both assertions; its representation is \<open>03--1\<close>, which \<open>split("-")\<close> cuts
  into three pieces, so \<open>from_str_format\<close> raises \<open>ValueError\<close> at the tuple assignment.
\<close>

theorem Period_roundtrip_negative_year:
  "Period (- 1) 3 = Inr \<lparr>year = - 1, month = 3\<rparr>
   \<and> from_str_format (representation \<lparr>year = - 1, month = 3\<rparr>) = Inl ValueError"
  by (simp add: Period_def representation_def format_02d_def str_int_def zfill_def digit_char_def
      from_str_format_def str_nat.simps)

text \<open>
  C7, amended. Construction of a \<open>Period\<close> fails whenever the month is outside 1..12;
  \<open>from_str_format("03-2024")\<close> is \<open>Period(year=2024, month=3)\<close>; and for every
  constructed period whose year is not negative, \<open>from_str_format\<close> of its
  \<open>representation\<close> returns the period itself.
\<close>

theorem Period_construction_and_roundtrip:
  "(\<not> (1 \<le> m \<and> m \<le> 12) \<longrightarrow> Period y m = Inl (AssertionError ''Month must be between 1 and 12''))
   \<and> from_str_format ''03-2024'' = Period 2024 3
   \<and> Period 2024 3 = Inr \<lparr>year = 2024, month = 3\<rparr>
   \<and> (Period y' m' = Inr p \<and> 0 \<le> year p \<longrightarrow> from_str_format (representation p) = Inr p)"
proof -
  have "Period 2024 3 = Inr \<lparr>year = 2024, month = 3\<rparr>"
    by (simp add: Period_def)
  moreover have "\<not> (1 \<le> m \<and> m \<le> 12) \<longrightarrow>
      Period y m = Inl (AssertionError ''Month must be between 1 and 12'')"
    by (simp add: Period_def)
  ultimately show ?thesis
    using from_str_format_example from_str_format_representation [of y' m' p] by blast
qed

theorem Period_construction_and_roundtrip_witness:
  "Period 2024 13 = Inl (AssertionError ''Month must be between 1 and 12'')
   \<and> Period 1999 12 = Inr \<lparr>year = 1999, month = 12\<rparr>
   \<and> representation \<lparr>year = 1999, month = 12\<rparr> = ''12-1999''
   \<and> from_str_format ''12-1999'' = Inr \<lparr>year = 1999, month = 12\<rparr>"
proof -
  have c: "Period 1999 12 = Inr \<lparr>year = 1999, month = 12\<rparr>"
    by (simp add: Period_def)
  have r: "representation \<lparr>year = 1999, month = 12\<rparr> = ''12-1999''"
    by (simp add: representation_def format_02d_def str_int_def zfill_def digit_char_def
        str_nat.simps)
  show ?thesis
    using Period_construction_and_roundtrip [of 13 2024 1999 12 "\<lparr>year = 1999, month = 12\<rparr>"] c r
    by simp
qed

subsection \<open>Money\<close>

text \<open>
  C8. Construction of a \<open>Money\<close> fails for every negative amount; with both operands in
  the default currency, \<open>Money(amount=10) + Money(amount=5)\<close> is \<open>Money(amount=15)\<close>;
  \<open>Money(amount=10).calculate_fee(Fee(10))\<close> is \<open>Money(amount=1)\<close>; and in general the
  fee is \<open>amount * value / 100\<close> in the currency of the money it is taken from, whenever
  that amount is not negative.
\<close>

theorem Money_construction_add_fee:
  "(a < 0 \<longrightarrow> Money a c = Inl (AssertionError ''Amount must be greather than 0''))
   \<and> Money (- 1) ARS = Inl (AssertionError ''Amount must be greather than 0'')
   \<and> Money 10 ARS = Inr \<lparr>amount = 10, currency = ARS\<rparr>
   \<and> Money 5 ARS = Inr \<lparr>amount = 5, currency = ARS\<rparr>
   \<and> money_add \<lparr>amount = 10, currency = ARS\<rparr> \<lparr>amount = 5, currency = ARS\<rparr> = Money 15 ARS
   \<and> calculate_fee \<lparr>amount = 10, currency = ARS\<rparr> (Fee 10) = Money 1 ARS
   \<and> Money 1 ARS = Inr \<lparr>amount = 1, currency = ARS\<rparr>
   \<and> (0 \<le> amount x * fee_value f / 100 \<longrightarrow>
        calculate_fee x f = Inr \<lparr>amount = amount x * fee_value f / 100, currency = currency x\<rparr>)"
  by (simp add: Money_def money_add_def calculate_fee_def Fee_def)

theorem Money_construction_add_fee_witness:
  "Money (- 3) USD = Inl (AssertionError ''Amount must be greather than 0'')
   \<and> calculate_fee \<lparr>amount = 200, currency = USD\<rparr> \<lparr>fee_value = 5\<rparr>
       = Inr \<lparr>amount = 10, currency = USD\<rparr>"
  using Money_construction_add_fee [of "- 3" USD "\<lparr>amount = 200, currency = USD\<rparr>" "\<lparr>fee_value = 5\<rparr>"]
  by simp

text \<open>
  C10. Addition and subtraction of two \<open>Money\<close> values never compare the currencies:
  whenever the resulting amount is not negative they return a \<open>Money\<close> with that amount
  and the currency of the left operand, whatever the currency of the right operand is.
\<close>

theorem Money_add_sub_keep_left_currency:
  "(0 \<le> amount a + amount b \<longrightarrow>
      money_add a b = Inr \<lparr>amount = amount a + amount b, currency = currency a\<rparr>)
   \<and> (0 \<le> amount a - amount b \<longrightarrow>
      money_sub a b = Inr \<lparr>amount = amount a - amount b, currency = currency a\<rparr>)"
  by (simp add: Money_def money_add_def money_sub_def)

theorem Money_add_sub_keep_left_currency_witness:
  "money_add \<lparr>amount = 10, currency = USD\<rparr> \<lparr>amount = 5, currency = ARS\<rparr>
     = Inr \<lparr>amount = 15, currency = USD\<rparr>
   \<and> money_sub \<lparr>amount = 10, currency = USD\<rparr> \<lparr>amount = 5, currency = ARS\<rparr>
     = Inr \<lparr>amount = 5, currency = USD\<rparr>"
  using Money_add_sub_keep_left_currency
    [of "\<lparr>amount = 10, currency = USD\<rparr>" "\<lparr>amount = 5, currency = ARS\<rparr>"]
  by simp

section \<open>Properties of the dependency provider\<close>

subsection \<open>Registration and lookup, step by step\<close>

lemma register_dependency_Name:
  "register_dependency h p (Name n) x = Inr (container_setattr h (container p) n (Object x), p)"
  by (simp add: register_dependency_def py_setattr_def)

lemma register_dependency_Type:
  "register_dependency h p (Type c) x =
     Inr (container_setattr h (container p) (str_class c @ ''-'' @ str_nat (counter p)) (Object x),
          p\<lparr>counter := counter p + 1\<rparr>)"
  by (simp add: register_dependency_def py_setattr_def str_identifier_def)

lemma containers_setattr:
  "containers (container_setattr h a n pr) b =
     (if b = a then (containers h a)\<lparr>attrs := AList.update n pr (attrs (containers h a))\<rparr>
      else containers h b)"
  by (simp add: container_setattr_def Let_def)

lemma fresh_setattr: "fresh (container_setattr h a n pr) = fresh h"
  by (simp add: container_setattr_def Let_def)


lemma get_dependency_cong:
  "containers h' (container p) = containers h (container p) \<Longrightarrow>
   get_dependency h' p i = get_dependency h p i"
  by (cases i) (simp_all add: get_dependency_def resolve_provider_by_type_def getmembers_def)


lemma register_dependency_total:
  "\<exists>h' p'. register_dependency h p i x = Inr (h', p')"
  by (cases i) (simp_all add: register_dependency_Name register_dependency_Type)

lemma register_dependency_frame:
  assumes "register_dependency h q i x = Inr (h', q')"
  shows "container q' = container q" and "fresh h' = fresh h"
    and "a \<noteq> container q \<Longrightarrow> containers h' a = containers h a"
  using assms
  by (cases i; simp add: register_dependency_Name register_dependency_Type containers_setattr
      fresh_setattr; fastforce simp: containers_setattr fresh_setattr)+

lemma update_frame:
  "\<exists>h' q'. update h q regs = Inr (h', q') \<and> container q' = container q \<and> fresh h' = fresh h
     \<and> (\<forall>a. a \<noteq> container q \<longrightarrow> containers h' a = containers h a)"
proof (induction regs arbitrary: h q)
  case Nil
  show ?case by simp
next
  case (Cons r regs)
  obtain i x where r: "r = (i, x)" by (cases r)
  obtain h1 q1 where s: "register_dependency h q i x = Inr (h1, q1)"
    using register_dependency_total [of h q i x] by blast
  note f = register_dependency_frame [OF s]
  obtain h' q' where u: "update h1 q1 regs = Inr (h', q')" "container q' = container q1"
    "fresh h' = fresh h1" "\<forall>a. a \<noteq> container q1 \<longrightarrow> containers h' a = containers h1 a"
    using Cons.IH [of h1 q1] by blast
  show ?case
    using u f by (simp add: r s)
qed

lemma copy_frame:
  assumes "container p < fresh h"
  shows "\<exists>h1 dp. ContainerProvider_copy h p extra = Inr (h1, dp)
      \<and> container dp = fresh h \<and> fresh h1 = Suc (fresh h)
      \<and> containers h1 (container p) = containers h (container p)"
proof -
  define h0 where
    "h0 = h\<lparr>containers := (containers h)(fresh h := containers h (container p)),
             fresh := Suc (fresh h)\<rparr>"
  have c: "copy_copy h (container p) = (h0, fresh h)" by (simp add: copy_copy_def h0_def)
  have h0: "containers h0 (container p) = containers h (container p)" "fresh h0 = Suc (fresh h)"
    using assms by (simp_all add: h0_def)
  obtain h1 dp where u: "update h0 (ContainerProvider (fresh h)) extra = Inr (h1, dp)"
    "container dp = container (ContainerProvider (fresh h))" "fresh h1 = fresh h0"
    "\<forall>a. a \<noteq> container (ContainerProvider (fresh h)) \<longrightarrow> containers h1 a = containers h0 a"
    using update_frame [of h0 "ContainerProvider (fresh h)" extra] by blast
  have "containers h1 (container p) = containers h0 (container p)"
    using u(4) assms by (simp add: ContainerProvider_def)
  then show ?thesis
    using u(1,2,3) h0 by (simp add: ContainerProvider_copy_def c ContainerProvider_def)
qed






subsection \<open>Lookup by type\<close>



lemmas provider_defs =
  empty_heap_def new_container_def ContainerProvider_def getmembers_def inspect_provider_def
  issubclass_def get_dependency_def resolve_provider_by_type_def register_dependency_def
  py_setattr_def container_setattr_def str_identifier_def str_class_def copy_copy_def
  ContainerProvider_copy_def has_dependency_def Let_def



subsection \<open>Registration\<close>





subsection \<open>Derived providers\<close>

text \<open>
  The copy of a container is a new object, but its \<open>providers\<close> dictionary is the one
  of the original: a name registered on the derived provider is reported by
  \<open>has_dependency\<close> of the original, although \<open>get_dependency\<close> of the original does
  not resolve it.
\<close>

lemma copy_shares_providers_dictionary:
  "(case ContainerProvider_copy (fst (new_container empty_heap [(''a'', Object (10::nat))]))
          (ContainerProvider 0) [(Name ''b'', 20)] of
      Inl e \<Rightarrow> None
    | Inr (h1, dp) \<Rightarrow>
        Some (has_dependency h1 (ContainerProvider 0) (Name ''b''),
              get_dependency h1 (ContainerProvider 0) (Name ''b''),
              get_dependency h1 dp (Name ''b''),
              get_dependency h1 dp (Name ''a'')))
     = Some (Inr True, Inl AttributeError, Inr 20, Inr 10)
   \<and> has_dependency (fst (new_container empty_heap [(''a'', Object (10::nat))]))
          (ContainerProvider 0) (Name ''b'') = Inr False"
  by (simp add: provider_defs)


text \<open>
  C5. For a provider whose container is an object of the heap, \<open>copy\<close> with any extra
  bindings succeeds, every later sequence of registrations on the derived provider
  succeeds, and \<open>get_dependency\<close> of the original returns for every identifier, by name
  or by type, what it returned before the copy was made.
\<close>

theorem copy_then_register_frame:
  assumes "container p < fresh h"
  shows "\<exists>h1 dp h2 dp'.
      ContainerProvider_copy h p extra = Inr (h1, dp)
      \<and> update h1 dp regs = Inr (h2, dp')
      \<and> container dp \<noteq> container p
      \<and> (\<forall>i. get_dependency h1 p i = get_dependency h p i)
      \<and> (\<forall>i. get_dependency h2 p i = get_dependency h p i)"
proof -
  obtain h1 dp where c: "ContainerProvider_copy h p extra = Inr (h1, dp)"
    "container dp = fresh h" "containers h1 (container p) = containers h (container p)"
    using copy_frame [OF assms] by blast
  obtain h2 dp' where u: "update h1 dp regs = Inr (h2, dp')"
    "\<forall>a. a \<noteq> container dp \<longrightarrow> containers h2 a = containers h1 a"
    using update_frame [of h1 dp regs] by blast
  have ne: "container dp \<noteq> container p" using assms c(2) by simp
  then have "containers h2 (container p) = containers h (container p)"
    using u(2) c(3) by simp
  then show ?thesis
    using c u(1) ne by (auto intro: get_dependency_cong)
qed



theorem copy_then_register_frame_witness:
  "\<exists>h1 dp h2 dp'.
      ContainerProvider_copy (fst (new_container empty_heap [(''a'', Object (10::nat))]))
        (ContainerProvider 0) [(Name ''b'', 20)] = Inr (h1, dp)
      \<and> update h1 dp [(Name ''a'', 30), (Type (PyClass ''Session'' [''object'']), 40)] = Inr (h2, dp')
      \<and> get_dependency h2 (ContainerProvider 0) (Name ''a'') = Inr 10
      \<and> get_dependency h2 (ContainerProvider 0) (Name ''b'') = Inl AttributeError
      \<and> get_dependency h2 (ContainerProvider 0) (Type (PyClass ''Session'' [''object'']))
          = Inl TypeError"
proof -
  let ?h = "fst (new_container empty_heap [(''a'', Object (10::nat))])"
  have a: "container (ContainerProvider 0) < fresh ?h"
    by (simp add: ContainerProvider_def new_container_def empty_heap_def)
  have g: "get_dependency ?h (ContainerProvider 0) (Name ''a'') = Inr 10"
    "get_dependency ?h (ContainerProvider 0) (Name ''b'') = Inl AttributeError"
    "get_dependency ?h (ContainerProvider 0) (Type (PyClass ''Session'' [''object'']))
       = Inl TypeError"
    by (simp_all add: provider_defs)
  show ?thesis
    using copy_then_register_frame [OF a, of "[(Name ''b'', 20)]"
        "[(Name ''a'', 30), (Type (PyClass ''Session'' [''object'']), 40)]"] g
    by auto
qed

section \<open>Properties of the unit of work\<close>

subsection \<open>Commit, rollback and close\<close>





subsection \<open>Correlation identifiers\<close>

lemmas unit_of_work_defs =
  on_create_transaction_context_def on_exit_transaction_context_def initial_world_def
  Session_new_def uuid4_def logger_set_correlation_id_def logger_log_def session_do_def
  Repository_new_def TransactionContainer_def new_container_def empty_heap_def
  TransactionContext_def ContainerProvider_def ctx_getitem_def get_dependency_def
  Let_def split_def

text \<open>
  C9. The claim is that the identifier bound as the scope's \<open>correlation_id\<close> is the
  one the logger carries for the scope's log lines, and that the logger's identifier is
  reset to \<open>UUID(int=0)\<close> when the scope is closed. The hook computes
  \<open>correlation_id = uuid.uuid4()\<close> and then calls
  \<open>logger.correlation_id.set(uuid.uuid4())\<close>, with a second random identifier. When the
  two calls return \<open>00000000-0000-4000-8000-000000000001\<close> and
  \<open>00000000-0000-4000-8000-000000000002\<close>, the scope's dependency is the first, the
  logger holds the second, and the lines the exit hook logs carry the second; the reset
  to zero at the end does happen.
\<close>

theorem correlation_id_differs_from_logger_id:
  "(case on_create_transaction_context (\<lambda>n. []) (initial_world (\<lambda>n. UUID (302240678275694148452353 + n))) of
      (ctx, w) \<Rightarrow>
        (ctx_getitem w ctx ''correlation_id'', logger_correlation_id w,
         (case on_exit_transaction_context w ctx None of
            (r, w') \<Rightarrow> (r, map correlation_id (log_lines w'), logger_correlation_id w'))))
   = (Inr (PyUUID (UUID 302240678275694148452353)), UUID 302240678275694148452354, Inr (),
      [UUID 302240678275694148452354, UUID 302240678275694148452354], UUID 0)"
  by (simp add: unit_of_work_defs)

subsection \<open>Collection and publication of domain events\<close>












end
